theory Spec2Isabelle
  imports Complex_Main "HOL-Library.Char_ord" "HOL-Library.List_Lexorder"
begin

section \<open>Values, documents and the document store\<close>

text \<open>
  The application (\<^verbatim>\<open>src/app.py\<close>) keeps four MongoDB collections (users, products,
  customers, sales) and reaches them through pymongo.  A stored field value is one of
  the Python values the application writes: \<^verbatim>\<open>None\<close>, a string, an integer, a float,
  an \<^verbatim>\<open>ObjectId\<close> or a \<^verbatim>\<open>datetime\<close>.  Python integers are unbounded (\<open>int\<close>).  Python
  floats are idealised as real numbers: rounding, infinities and NaN are not part of
  the model.  A \<^verbatim>\<open>datetime\<close> is a clock reading, a natural number.
\<close>

type_synonym oid = nat

datatype pyval = PNone | PStr string | PInt int | PFloat real | PId oid | PDate nat

text \<open>A document is a Python dict from field names to values; its \<^verbatim>\<open>_id\<close> is kept
  beside it.  A collection lists its documents in insertion order.\<close>

type_synonym doc = "string \<rightharpoonup> pyval"

type_synonym collection = "(oid \<times> doc) list"

text \<open>\<^verbatim>\<open>d.get(k)\<close>: the value of a field, \<^verbatim>\<open>None\<close> when the field is missing.\<close>

definition get :: "doc \<Rightarrow> string \<Rightarrow> pyval" where
  "get d k = (case d k of None \<Rightarrow> PNone | Some v \<Rightarrow> v)"

text \<open>
  The exceptions that the modelled code can raise.  \<open>ValueError\<close> carries its message:
  the application raises \<^verbatim>\<open>ValueError("Username already exists")\<close> and
  \<^verbatim>\<open>ValueError("Invalid product or customer")\<close>, and \<^verbatim>\<open>int()\<close> and \<^verbatim>\<open>float()\<close> raise a
  \<open>ValueError\<close> on a string that is not a number and a \<open>TypeError\<close> on a value that is
  neither a number nor a string.  \<open>InvalidId\<close> is \<^verbatim>\<open>bson.errors.InvalidId\<close>.
  \<open>ConnectionFailure\<close> stands for a pymongo call that does not get through to the
  server, \<open>WriteError\<close> for an update that the server refuses.
\<close>

datatype error = ValueError string | TypeError | InvalidId | ConnectionFailure | WriteError

text \<open>
  The store: the four collections of \<^verbatim>\<open>get_collections\<close>, the number of requests sent
  to the server so far (\<open>calls\<close>), and the numbers of the requests that fail
  (\<open>fail_at\<close>, a simulated store error).  A request that fails changes no collection.
\<close>

record store =
  users :: collection
  products :: collection
  customers :: collection
  sales :: collection
  calls :: nat
  fail_at :: "nat list"

datatype coll_name = Users | Products | Customers | Sales

fun coll_of :: "coll_name \<Rightarrow> store \<Rightarrow> collection" where
  "coll_of Users s = users s"
| "coll_of Products s = products s"
| "coll_of Customers s = customers s"
| "coll_of Sales s = sales s"

fun set_coll :: "coll_name \<Rightarrow> collection \<Rightarrow> store \<Rightarrow> store" where
  "set_coll Users c s = s\<lparr>users := c\<rparr>"
| "set_coll Products c s = s\<lparr>products := c\<rparr>"
| "set_coll Customers c s = s\<lparr>customers := c\<rparr>"
| "set_coll Sales c s = s\<lparr>sales := c\<rparr>"

definition failing :: "store \<Rightarrow> bool" where
  "failing s = (calls s \<in> set (fail_at s))"

definition tick :: "store \<Rightarrow> store" where
  "tick s = s\<lparr>calls := Suc (calls s)\<rparr>"

subsection \<open>ObjectId\<close>

text \<open>
  \<^verbatim>\<open>ObjectId(s)\<close> on a string: bson accepts a string of length 24 that
  \<^verbatim>\<open>bytes.fromhex\<close> can read (pairs of hexadecimal digits; ASCII whitespace between
  pairs is skipped) and raises \<open>InvalidId\<close> on every other string.  The binary id is
  read here as a big-endian number.
\<close>

definition is_space :: "char \<Rightarrow> bool" where
  "is_space c = (c \<in> set [CHR '' '', CHR 0x09, CHR 0x0A, CHR 0x0B, CHR 0x0C, CHR 0x0D])"

definition hex_digit :: "char \<Rightarrow> nat option" where
  "hex_digit c =
     (if c \<in> set ''0123456789'' then Some (of_char c - 48)
      else if c \<in> set ''abcdef'' then Some (of_char c - 87)
      else if c \<in> set ''ABCDEF'' then Some (of_char c - 55)
      else None)"

fun fromhex :: "string \<Rightarrow> nat list option" where
  "fromhex [] = Some []"
| "fromhex [c] = (if is_space c then Some [] else None)"
| "fromhex (c # d # cs) =
     (if is_space c then fromhex (d # cs)
      else (case (hex_digit c, hex_digit d) of
              (Some a, Some b) \<Rightarrow> map_option ((#) (16 * a + b)) (fromhex cs)
            | _ \<Rightarrow> None))"

definition ObjectId :: "string \<Rightarrow> oid option" where
  "ObjectId s =
     (if length s = 24 then map_option (foldl (\<lambda>n b. 256 * n + b) 0) (fromhex s)
      else None)"

text \<open>A generated id is new in its collection.\<close>

definition fresh_oid :: "collection \<Rightarrow> oid" where
  "fresh_oid c = Suc (fold max (map fst c) 0)"

subsection \<open>pymongo's collection operations\<close>

datatype query = ById oid | ByField string pyval

fun matches :: "query \<Rightarrow> oid \<times> doc \<Rightarrow> bool" where
  "matches (ById i) x = (fst x = i)"
| "matches (ByField k v) x = (snd x k = Some v)"

text \<open>\<^verbatim>\<open>find_one(filter)\<close>: the first matching document, or \<^verbatim>\<open>None\<close>.\<close>

definition find_one :: "coll_name \<Rightarrow> query \<Rightarrow> store \<Rightarrow> (error + (oid \<times> doc) option) \<times> store" where
  "find_one c q s =
     (if failing s then (Inl ConnectionFailure, tick s)
      else (Inr (find (matches q) (coll_of c s)), tick s))"

text \<open>\<^verbatim>\<open>insert_one(doc)\<close>: stores the document under a generated id, which it returns.\<close>

definition insert_one :: "coll_name \<Rightarrow> doc \<Rightarrow> store \<Rightarrow> (error + oid) \<times> store" where
  "insert_one c d s =
     (if failing s then (Inl ConnectionFailure, tick s)
      else (let i = fresh_oid (coll_of c s)
            in (Inr i, set_coll c (coll_of c s @ [(i, d)]) (tick s))))"

text \<open>
  The two update documents the application sends.  \<^verbatim>\<open>{"$set": fields}\<close> merges the
  fields into the document; the server refuses a change of \<^verbatim>\<open>_id\<close>.
  \<^verbatim>\<open>{"$inc": {k: n}}\<close> adds \<open>n\<close> to a numeric field, creates a missing field with value
  \<open>n\<close>, and is refused on a field that holds anything else.
\<close>

datatype update = Set doc | Inc string int

fun apply_update :: "update \<Rightarrow> oid \<times> doc \<Rightarrow> error + (oid \<times> doc)" where
  "apply_update (Set u) (i, d) =
     (if u ''_id'' = None \<or> u ''_id'' = Some (PId i)
      then Inr (i, d ++ u(''_id'' := None))
      else Inl WriteError)"
| "apply_update (Inc k n) (i, d) =
     (case d k of
        None \<Rightarrow> Inr (i, d(k \<mapsto> PInt n))
      | Some (PInt m) \<Rightarrow> Inr (i, d(k \<mapsto> PInt (m + n)))
      | Some (PFloat r) \<Rightarrow> Inr (i, d(k \<mapsto> PFloat (r + of_int n)))
      | Some _ \<Rightarrow> Inl WriteError)"

fun modify_first :: "('a \<Rightarrow> bool) \<Rightarrow> ('a \<Rightarrow> error + 'a) \<Rightarrow> 'a list \<Rightarrow> error + 'a list" where
  "modify_first p f [] = Inr []"
| "modify_first p f (x # xs) =
     (if p x then (case f x of Inl e \<Rightarrow> Inl e | Inr y \<Rightarrow> Inr (y # xs))
      else (case modify_first p f xs of Inl e \<Rightarrow> Inl e | Inr ys \<Rightarrow> Inr (x # ys)))"

text \<open>\<^verbatim>\<open>update_one(filter, update)\<close>: updates the first matching document; no match is
  not an error.\<close>

definition update_one :: "coll_name \<Rightarrow> query \<Rightarrow> update \<Rightarrow> store \<Rightarrow> (error + unit) \<times> store" where
  "update_one c q u s =
     (if failing s then (Inl ConnectionFailure, tick s)
      else (case modify_first (matches q) (apply_update u) (coll_of c s) of
              Inl e \<Rightarrow> (Inl e, tick s)
            | Inr c' \<Rightarrow> (Inr (), set_coll c c' (tick s))))"

fun delete_first :: "('a \<Rightarrow> bool) \<Rightarrow> 'a list \<Rightarrow> 'a list" where
  "delete_first p [] = []"
| "delete_first p (x # xs) = (if p x then xs else x # delete_first p xs)"

text \<open>\<^verbatim>\<open>delete_one(filter)\<close>: removes the first matching document; no match is not an
  error.\<close>

definition delete_one :: "coll_name \<Rightarrow> query \<Rightarrow> store \<Rightarrow> (error + unit) \<times> store" where
  "delete_one c q s =
     (if failing s then (Inl ConnectionFailure, tick s)
      else (Inr (), set_coll c (delete_first (matches q) (coll_of c s)) (tick s)))"

section \<open>Python's coercions and string functions\<close>

text \<open>
  \<^verbatim>\<open>str.strip()\<close> removes leading and trailing whitespace.  Strings are byte
  strings here, and the whitespace characters are the ASCII ones of \<^verbatim>\<open>str.isspace\<close>.
\<close>

definition py_isspace :: "char \<Rightarrow> bool" where
  "py_isspace c = (c \<in> set [CHR '' '', CHR 0x09, CHR 0x0A, CHR 0x0B, CHR 0x0C, CHR 0x0D,
                              CHR 0x1C, CHR 0x1D, CHR 0x1E, CHR 0x1F])"

definition py_strip :: "string \<Rightarrow> string" where
  "py_strip s = rev (dropWhile py_isspace (rev (dropWhile py_isspace s)))"

text \<open>
  Numbers written as strings: an optional sign and decimal digits for \<^verbatim>\<open>int()\<close>, with
  an optional fractional part for \<^verbatim>\<open>float()\<close>, surrounding whitespace ignored.  The other
  literal forms of Python (digit separators, exponents, \<^verbatim>\<open>inf\<close>, \<^verbatim>\<open>nan\<close>) are not
  modelled and count as strings that are not numbers.
\<close>

definition digit_val :: "char \<Rightarrow> nat option" where
  "digit_val c = (if c \<in> set ''0123456789'' then Some (of_char c - 48) else None)"

definition digits_val :: "string \<Rightarrow> nat option" where
  "digits_val s = map_option (foldl (\<lambda>n d. 10 * n + d) 0) (those (map digit_val s))"

definition parse_nat :: "string \<Rightarrow> nat option" where
  "parse_nat s = (if s = [] then None else digits_val s)"

definition parse_int :: "string \<Rightarrow> int option" where
  "parse_int s =
     (case py_strip s of
        [] \<Rightarrow> None
      | c # r \<Rightarrow>
          if c = CHR ''-'' then map_option (\<lambda>n. - int n) (parse_nat r)
          else if c = CHR ''+'' then map_option int (parse_nat r)
          else map_option int (parse_nat (c # r)))"

definition parse_decimal :: "string \<Rightarrow> real option" where
  "parse_decimal s =
     (let ip = takeWhile (\<lambda>c. c \<noteq> CHR ''.'') s; fp = drop (Suc (length ip)) s
      in if ip = [] \<and> fp = [] then None
         else (case (digits_val ip, digits_val fp) of
                 (Some a, Some b) \<Rightarrow> Some (real a + real b / 10 ^ length fp)
               | _ \<Rightarrow> None))"

definition parse_float :: "string \<Rightarrow> real option" where
  "parse_float s =
     (case py_strip s of
        [] \<Rightarrow> None
      | c # r \<Rightarrow>
          if c = CHR ''-'' then map_option uminus (parse_decimal r)
          else if c = CHR ''+'' then parse_decimal r
          else parse_decimal (c # r))"

text \<open>\<^verbatim>\<open>int(x)\<close>: an integer as it is, a float truncated towards zero, a string
  parsed.\<close>

fun py_int :: "pyval \<Rightarrow> error + int" where
  "py_int (PInt i) = Inr i"
| "py_int (PFloat r) = Inr (if 0 \<le> r then \<lfloor>r\<rfloor> else \<lceil>r\<rceil>)"
| "py_int (PStr s) =
     (case parse_int s of
        None \<Rightarrow> Inl (ValueError ''invalid literal for int() with base 10'')
      | Some i \<Rightarrow> Inr i)"
| "py_int _ = Inl TypeError"

text \<open>\<^verbatim>\<open>float(x)\<close>.\<close>

fun py_float :: "pyval \<Rightarrow> error + real" where
  "py_float (PInt i) = Inr (of_int i)"
| "py_float (PFloat r) = Inr r"
| "py_float (PStr s) =
     (case parse_float s of
        None \<Rightarrow> Inl (ValueError ''could not convert string to float'')
      | Some r \<Rightarrow> Inr r)"
| "py_float _ = Inl TypeError"

section \<open>The application's functions\<close>

subsection \<open>Auth functions\<close>





subsection \<open>CRUD functions\<close>

definition update_product :: "string \<Rightarrow> doc \<Rightarrow> store \<Rightarrow> (error + unit) \<times> store" where
  "update_product prod_id updates s =
     (case ObjectId prod_id of
        None \<Rightarrow> (Inl InvalidId, s)
      | Some i \<Rightarrow> update_one Products (ById i) (Set updates) s)"

definition delete_product :: "string \<Rightarrow> store \<Rightarrow> (error + unit) \<times> store" where
  "delete_product prod_id s =
     (case ObjectId prod_id of
        None \<Rightarrow> (Inl InvalidId, s)
      | Some i \<Rightarrow> delete_one Products (ById i) s)"

definition update_customer :: "string \<Rightarrow> doc \<Rightarrow> store \<Rightarrow> (error + unit) \<times> store" where
  "update_customer cust_id updates s =
     (case ObjectId cust_id of
        None \<Rightarrow> (Inl InvalidId, s)
      | Some i \<Rightarrow> update_one Customers (ById i) (Set updates) s)"

definition delete_customer :: "string \<Rightarrow> store \<Rightarrow> (error + unit) \<times> store" where
  "delete_customer cust_id s =
     (case ObjectId cust_id of
        None \<Rightarrow> (Inl InvalidId, s)
      | Some i \<Rightarrow> delete_one Customers (ById i) s)"

text \<open>
  \<^verbatim>\<open>insert_sale\<close>.  \<open>sale_date\<close> is the optional argument (a \<^verbatim>\<open>datetime\<close> is never
  falsy) and \<open>utcnow\<close> the reading of \<^verbatim>\<open>datetime.utcnow()\<close>.  The document built for the
  sale is \<open>sale_doc\<close>.  The last step is the \<^verbatim>\<open>try\<close> block: whatever \<^verbatim>\<open>update_one\<close>
  raises is dropped, and the id of the inserted sale is returned.
\<close>

definition sale_doc :: "oid \<times> doc \<Rightarrow> oid \<times> doc \<Rightarrow> int \<Rightarrow> real \<Rightarrow> nat \<Rightarrow> doc" where
  "sale_doc product customer quantity unit_price sale_date =
     [''product_id'' \<mapsto> PId (fst product),
      ''product_name'' \<mapsto> get (snd product) ''name'',
      ''customer_id'' \<mapsto> PId (fst customer),
      ''customer_name'' \<mapsto> get (snd customer) ''name'',
      ''quantity'' \<mapsto> PInt quantity,
      ''unit_price'' \<mapsto> PFloat unit_price,
      ''total'' \<mapsto> PFloat (of_int quantity * unit_price),
      ''date'' \<mapsto> PDate sale_date]"

definition insert_sale ::
  "string \<Rightarrow> string \<Rightarrow> pyval \<Rightarrow> pyval \<Rightarrow> nat option \<Rightarrow> nat \<Rightarrow> store \<Rightarrow> (error + oid) \<times> store" where
  "insert_sale product_id customer_id quantity unit_price sale_date utcnow s =
     (case ObjectId product_id of
        None \<Rightarrow> (Inl InvalidId, s)
      | Some pid \<Rightarrow>
     (case find_one Products (ById pid) s of
        (Inl e, s1) \<Rightarrow> (Inl e, s1)
      | (Inr product, s1) \<Rightarrow>
     (case ObjectId customer_id of
        None \<Rightarrow> (Inl InvalidId, s1)
      | Some cid \<Rightarrow>
     (case find_one Customers (ById cid) s1 of
        (Inl e, s2) \<Rightarrow> (Inl e, s2)
      | (Inr customer, s2) \<Rightarrow>
     (case (product, customer) of
        (Some p, Some c) \<Rightarrow>
          (case py_int quantity of
             Inl e \<Rightarrow> (Inl e, s2)
           | Inr q \<Rightarrow>
          (case py_float unit_price of
             Inl e \<Rightarrow> (Inl e, s2)
           | Inr price \<Rightarrow>
          (case insert_one Sales
                  (sale_doc p c q price (case sale_date of None \<Rightarrow> utcnow | Some d \<Rightarrow> d)) s2 of
             (Inl e, s3) \<Rightarrow> (Inl e, s3)
           | (Inr sid, s3) \<Rightarrow>
               (Inr sid, snd (update_one Products (ById pid) (Inc ''stock'' (- q)) s3)))))
      | _ \<Rightarrow> (Inl (ValueError ''Invalid product or customer''), s2))))))"

subsection \<open>The login form\<close>




subsection \<open>Reports: sales by product\<close>

text \<open>
  \<^verbatim>\<open>sales.groupby('product_name')['total'].sum().reset_index().sort_values(by='total',
  ascending=False)\<close>, on the sale documents that the frame is built from.  The frame is
  taken to have both columns, with names that are strings or null and totals that are
  numbers or null, as in every sale the application writes.  \<open>sale_rows\<close> is the
  frame's two columns: pandas drops the rows whose group key is null, and a null total
  adds nothing to a sum.  \<open>groupby_sum\<close> has one row for each key, keys ascending.
  \<open>sort_values_desc\<close> is pandas' descending sort: reverse, sort ascending, reverse; the
  sort is taken as stable, and what pandas' default sort does with equal totals is left
  open.
\<close>

definition total_of :: "doc \<Rightarrow> real" where
  "total_of d = (case d ''total'' of Some (PFloat r) \<Rightarrow> r | Some (PInt i) \<Rightarrow> of_int i | _ \<Rightarrow> 0)"

definition sale_rows :: "collection \<Rightarrow> (string \<times> real) list" where
  "sale_rows docs =
     List.map_filter
       (\<lambda>x. case snd x ''product_name'' of Some (PStr n) \<Rightarrow> Some (n, total_of (snd x)) | _ \<Rightarrow> None)
       docs"

definition groupby_sum :: "(string \<times> real) list \<Rightarrow> (string \<times> real) list" where
  "groupby_sum rows =
     map (\<lambda>k. (k, sum_list (map snd (filter (\<lambda>r. fst r = k) rows))))
       (sort (remdups (map fst rows)))"

definition sort_values_desc :: "(string \<times> real) list \<Rightarrow> (string \<times> real) list" where
  "sort_values_desc rows = rev (sort_key snd (rev rows))"

definition sales_by_product :: "collection \<Rightarrow> (string \<times> real) list" where
  "sales_by_product docs = sort_values_desc (groupby_sum (sale_rows docs))"

section \<open>Sample data\<close>

text \<open>
  A store for the examples, after the application's "Import Sample Data": its two users,
  two of its products, a customer and the sale of two T-shirts.  The ids are small
  numbers; \<open>pid1\<close> is the id string of the T-shirt, \<open>pid9\<close> a well-formed id that no
  document has.
\<close>

definition sample_store :: store where
  "sample_store =
     \<lparr>users =
        [(1, [''name'' \<mapsto> PStr ''Admin User'', ''username'' \<mapsto> PStr ''admin'',
              ''password'' \<mapsto> PStr ''adminpass'', ''role'' \<mapsto> PStr ''admin'']),
         (2, [''name'' \<mapsto> PStr ''Amit Pandey'', ''username'' \<mapsto> PStr ''amit'',
              ''password'' \<mapsto> PStr ''pass123'', ''role'' \<mapsto> PStr ''user''])],
      products =
        [(1, [''name'' \<mapsto> PStr ''T-Shirt'', ''sku'' \<mapsto> PStr ''TSH-001'',
              ''price'' \<mapsto> PFloat 299, ''stock'' \<mapsto> PInt 100,
              ''description'' \<mapsto> PStr ''Cotton T-Shirt'']),
         (2, [''name'' \<mapsto> PStr ''Jeans'', ''sku'' \<mapsto> PStr ''JNS-001'',
              ''price'' \<mapsto> PFloat 1499, ''stock'' \<mapsto> PInt 50,
              ''description'' \<mapsto> PStr ''Denim Jeans''])],
      customers =
        [(1, [''name'' \<mapsto> PStr ''Amit Pandey'', ''email'' \<mapsto> PStr ''amit@example.com'',
              ''phone'' \<mapsto> PStr ''9876543210'', ''notes'' \<mapsto> PStr ''VIP''])],
      sales =
        [(1, [''product_id'' \<mapsto> PId 1, ''product_name'' \<mapsto> PStr ''T-Shirt'',
              ''customer_id'' \<mapsto> PId 1, ''customer_name'' \<mapsto> PStr ''Amit Pandey'',
              ''quantity'' \<mapsto> PInt 2, ''unit_price'' \<mapsto> PFloat 299,
              ''total'' \<mapsto> PFloat 598, ''date'' \<mapsto> PDate 0])],
      calls = 0,
      fail_at = []\<rparr>"

definition pid1 :: string where
  "pid1 = ''000000000000000000000001''"

definition pid9 :: string where
  "pid9 = ''000000000000000000000009''"


definition report_example :: collection where
  "report_example =
     [(1, [''product_name'' \<mapsto> PStr ''A'', ''total'' \<mapsto> PFloat 100]),
      (2, [''product_name'' \<mapsto> PStr ''B'', ''total'' \<mapsto> PFloat 50]),
      (3, [''product_name'' \<mapsto> PStr ''A'', ''total'' \<mapsto> PFloat 25])]"

section \<open>Facts about the store operations\<close>

lemma ObjectId_pid1: "ObjectId pid1 = Some 1"
  unfolding pid1_def by code_simp

lemma ObjectId_pid9: "ObjectId pid9 = Some 9"
  unfolding pid9_def by code_simp

lemma matches_ById: "matches (ById i) = (\<lambda>x. fst x = i)"
  by (rule ext) simp

lemma find_by_id: "find (\<lambda>x. fst x = i) c = map_option (Pair i) (map_of c i)"
  by (induction c) auto



















lemma insert_sale_refs_missing:
  assumes "ObjectId product_id = Some pid" "ObjectId customer_id = Some cid"
    and "\<not> failing s" "\<not> failing (tick s)"
    and "map_of (products s) pid = None \<or> map_of (customers s) cid = None"
  shows "insert_sale product_id customer_id quantity unit_price sale_date utcnow s =
     (Inl (ValueError ''Invalid product or customer''), tick (tick s))"
proof -
  have 1: "find_one Products (ById pid) s = (Inr (map_option (Pair pid) (map_of (products s) pid)), tick s)"
    using assms(3) by (simp add: find_one_def matches_ById find_by_id)
  have 2: "find_one Customers (ById cid) (tick s) =
      (Inr (map_option (Pair cid) (map_of (customers s) cid)), tick (tick s))"
    using assms(4) by (simp add: find_one_def matches_ById find_by_id tick_def)
  show ?thesis
    unfolding insert_sale_def using assms(5)
    by (auto simp add: assms(1,2) 1 2 split: option.splits)
qed




lemma insert_sale_error_keeps_data:
  assumes "fst (insert_sale product_id customer_id quantity unit_price sale_date utcnow s) = Inl e"
  shows "sales (snd (insert_sale product_id customer_id quantity unit_price sale_date utcnow s)) = sales s \<and>
         products (snd (insert_sale product_id customer_id quantity unit_price sale_date utcnow s)) = products s"
  using assms
  by (auto simp: insert_sale_def find_one_def insert_one_def tick_def Let_def
           split: option.splits sum.splits if_splits prod.splits)









lemma sort_values_desc_sorted:
  "sorted_wrt (\<lambda>a b. snd b \<le> snd a) (sort_values_desc rows)"
proof -
  have "sorted (map snd (sort_key snd (rev rows)))" by (rule sorted_sort_key)
  then show ?thesis by (simp add: sort_values_desc_def sorted_wrt_rev sorted_wrt_map)
qed

lemma sort_values_desc_set: "set (sort_values_desc rows) = set rows"
  by (simp add: sort_values_desc_def)

lemma sort_values_desc_distinct:
  "distinct (map fst (sort_values_desc rows)) = distinct (map fst rows)"
  by (simp add: sort_values_desc_def distinct_map)

lemma groupby_sum_keys: "map fst (groupby_sum rows) = sort (remdups (map fst rows))"
  by (simp add: groupby_sum_def comp_def)

lemma map_of_groupby_sum:
  "map_of (groupby_sum rows) n =
     (if n \<in> fst ` set rows then Some (sum_list (map snd (filter (\<lambda>r. fst r = n) rows))) else None)"
  by (simp add: groupby_sum_def map_of_map_restrict restrict_map_def)

lemma sale_rows_Nil: "sale_rows [] = []"
  by (simp add: sale_rows_def map_filter_simps)

lemma sale_rows_Cons:
  "sale_rows (x # docs) =
     (case snd x ''product_name'' of
        Some (PStr n) \<Rightarrow> (n, total_of (snd x)) # sale_rows docs
      | _ \<Rightarrow> sale_rows docs)"
  by (simp add: sale_rows_def map_filter_simps split: option.splits pyval.splits)

lemma sale_rows_names:
  "fst ` set (sale_rows docs) = {n. \<exists>x\<in>set docs. snd x ''product_name'' = Some (PStr n)}"
proof (induction docs)
  case Nil
  then show ?case by (simp add: sale_rows_Nil)
next
  case (Cons x docs)
  show ?case
  proof (cases "snd x ''product_name''")
    case None
    with Cons show ?thesis by (auto simp: sale_rows_Cons)
  next
    case (Some v)
    with Cons show ?thesis by (cases v) (auto simp: sale_rows_Cons)
  qed
qed

lemma sale_rows_sum:
  "sum_list (map snd (filter (\<lambda>r. fst r = n) (sale_rows docs))) =
   sum_list (map (\<lambda>x. total_of (snd x)) (filter (\<lambda>x. snd x ''product_name'' = Some (PStr n)) docs))"
proof (induction docs)
  case Nil
  then show ?case by (simp add: sale_rows_Nil)
next
  case (Cons x docs)
  show ?case
  proof (cases "snd x ''product_name''")
    case None
    with Cons show ?thesis by (simp add: sale_rows_Cons)
  next
    case (Some v)
    with Cons show ?thesis by (cases v) (simp_all add: sale_rows_Cons)
  qed
qed

section \<open>Creating a user\<close>



section \<open>Deleting a product or a customer\<close>



section \<open>Updating a product or a customer\<close>




section \<open>Malformed ids\<close>

text \<open>
  C10, as the code has it.  For an id string on which \<^verbatim>\<open>ObjectId\<close> raises:
  \<^verbatim>\<open>update_product\<close>, \<^verbatim>\<open>delete_product\<close>, \<^verbatim>\<open>update_customer\<close> and \<^verbatim>\<open>delete_customer\<close>
  raise \<open>InvalidId\<close> with the store untouched (no request was sent), and so does
  \<^verbatim>\<open>insert_sale\<close> when the string is its product id.  When the string is the customer
  id of \<^verbatim>\<open>insert_sale\<close> and the product id is well formed, the product has already been
  looked up: one request was sent, no collection has changed, and the call raises
  \<open>InvalidId\<close> if that request got through and the store's error if it did not.
\<close>

theorem malformed_id_raises_InvalidId:
  assumes "ObjectId ident = None"
  shows "update_product ident u s = (Inl InvalidId, s) \<and>
         delete_product ident s = (Inl InvalidId, s) \<and>
         update_customer ident u s = (Inl InvalidId, s) \<and>
         delete_customer ident s = (Inl InvalidId, s) \<and>
         insert_sale ident customer_id quantity unit_price sale_date utcnow s = (Inl InvalidId, s) \<and>
         (ObjectId product_id \<noteq> None \<longrightarrow>
            insert_sale product_id ident quantity unit_price sale_date utcnow s =
              (Inl (if failing s then ConnectionFailure else InvalidId), s\<lparr>calls := calls s + 1\<rparr>))"
  using assms
  by (auto simp: update_product_def delete_product_def update_customer_def delete_customer_def
        insert_sale_def find_one_def tick_def)

theorem malformed_id_raises_InvalidId_witness:
  "ObjectId ''not-an-id'' = None \<and> ObjectId pid1 \<noteq> None \<and> \<not> failing sample_store \<and>
   update_product ''not-an-id'' [''price'' \<mapsto> PFloat 349] sample_store = (Inl InvalidId, sample_store) \<and>
   delete_product ''not-an-id'' sample_store = (Inl InvalidId, sample_store) \<and>
   update_customer ''not-an-id'' [''notes'' \<mapsto> PStr ''new''] sample_store = (Inl InvalidId, sample_store) \<and>
   delete_customer ''not-an-id'' sample_store = (Inl InvalidId, sample_store) \<and>
   insert_sale ''not-an-id'' pid1 (PInt 1) (PFloat 1) None 0 sample_store = (Inl InvalidId, sample_store) \<and>
   insert_sale pid1 ''not-an-id'' (PInt 1) (PFloat 1) None 0 sample_store =
     (Inl InvalidId, sample_store\<lparr>calls := 1\<rparr>)"
proof -
  have bad: "ObjectId ''not-an-id'' = None" by (simp add: ObjectId_def)
  have good: "ObjectId pid1 \<noteq> None" by (simp add: ObjectId_pid1)
  have ok: "\<not> failing sample_store"
    by (simp add: failing_def sample_store_def)
  have c0: "calls sample_store + 1 = 1" by (simp add: sample_store_def)
  note m = malformed_id_raises_InvalidId [OF bad]
  from m [of "[''price'' \<mapsto> PFloat 349]" sample_store]
  have a: "update_product ''not-an-id'' [''price'' \<mapsto> PFloat 349] sample_store = (Inl InvalidId, sample_store)"
      "delete_product ''not-an-id'' sample_store = (Inl InvalidId, sample_store)"
      "delete_customer ''not-an-id'' sample_store = (Inl InvalidId, sample_store)"
    by blast+
  from m [of "[''notes'' \<mapsto> PStr ''new'']" sample_store]
  have b: "update_customer ''not-an-id'' [''notes'' \<mapsto> PStr ''new''] sample_store = (Inl InvalidId, sample_store)"
    by blast
  from m [of _ sample_store pid1 "PInt 1" "PFloat 1" None 0 pid1]
  have c: "insert_sale ''not-an-id'' pid1 (PInt 1) (PFloat 1) None 0 sample_store = (Inl InvalidId, sample_store)"
    by blast
  from m [of _ sample_store _ "PInt 1" "PFloat 1" None 0 pid1] good ok
  have d: "insert_sale pid1 ''not-an-id'' (PInt 1) (PFloat 1) None 0 sample_store =
     (Inl InvalidId, sample_store\<lparr>calls := 1\<rparr>)"
    unfolding c0 by simp
  from bad good ok a b c d show ?thesis by blast
qed

text \<open>The claim's "before any read reaches the store" does not hold for the customer
  id of \<^verbatim>\<open>insert_sale\<close>: with a store whose first request fails, the call raises the
  store's error, not \<open>InvalidId\<close>; with a store that answers, one request has been
  counted when \<open>InvalidId\<close> is raised.\<close>

theorem malformed_customer_id_counterexample:
  "ObjectId ''not-an-id'' = None \<and>
   insert_sale pid1 ''not-an-id'' (PInt 1) (PFloat 1) None 0 (sample_store\<lparr>fail_at := [0]\<rparr>) =
     (Inl ConnectionFailure, sample_store\<lparr>fail_at := [0], calls := 1\<rparr>) \<and>
   insert_sale pid1 ''not-an-id'' (PInt 1) (PFloat 1) None 0 sample_store =
     (Inl InvalidId, sample_store\<lparr>calls := 1\<rparr>)"
proof -
  have bad: "ObjectId ''not-an-id'' = None" by (simp add: ObjectId_def)
  show ?thesis
    by (simp add: bad insert_sale_def ObjectId_pid1 find_one_def failing_def tick_def
          sample_store_def)
qed

section \<open>Recording a sale\<close>



text \<open>
  C2.  For well-formed ids and a store that answers the two lookups: when no product
  has the product id or no customer has the customer id, \<^verbatim>\<open>insert_sale\<close> raises
  \<^verbatim>\<open>ValueError("Invalid product or customer")\<close> and the store is as before but for
  the two requests counted: no sale was created and no stock was changed.
\<close>

theorem insert_sale_invalid_reference:
  assumes "ObjectId product_id = Some pid" and "ObjectId customer_id = Some cid"
    and "\<not> failing s" and "\<not> failing (tick s)"
    and "pid \<notin> fst ` set (products s) \<or> cid \<notin> fst ` set (customers s)"
  shows "insert_sale product_id customer_id quantity unit_price sale_date utcnow s =
           (Inl (ValueError ''Invalid product or customer''), s\<lparr>calls := calls s + 2\<rparr>)"
proof -
  from assms(5) have "map_of (products s) pid = None \<or> map_of (customers s) cid = None"
    by (simp add: map_of_eq_None_iff)
  from insert_sale_refs_missing [OF assms(1-4) this] show ?thesis
    by (simp add: tick_def)
qed

theorem insert_sale_invalid_reference_witness:
  "ObjectId pid9 = Some 9 \<and> ObjectId pid1 = Some 1 \<and>
   \<not> failing sample_store \<and> \<not> failing (tick sample_store) \<and>
   9 \<notin> fst ` set (products sample_store) \<and> 9 \<notin> fst ` set (customers sample_store) \<and>
   insert_sale pid9 pid1 (PInt 3) (PFloat 10) None 5 sample_store =
     (Inl (ValueError ''Invalid product or customer''), sample_store\<lparr>calls := 2\<rparr>) \<and>
   insert_sale pid1 pid9 (PInt 3) (PFloat 10) None 5 sample_store =
     (Inl (ValueError ''Invalid product or customer''), sample_store\<lparr>calls := 2\<rparr>)"
proof -
  have ok: "\<not> failing sample_store" "\<not> failing (tick sample_store)"
    by (simp_all add: failing_def tick_def sample_store_def)
  have absent: "9 \<notin> fst ` set (products sample_store)" "9 \<notin> fst ` set (customers sample_store)"
    by (simp_all add: sample_store_def)
  have c0: "calls sample_store + 2 = 2" by (simp add: sample_store_def)
  from absent(1) have h1: "9 \<notin> fst ` set (products sample_store) \<or> 1 \<notin> fst ` set (customers sample_store)"
    by blast
  from absent(2) have h2: "1 \<notin> fst ` set (products sample_store) \<or> 9 \<notin> fst ` set (customers sample_store)"
    by blast
  have a: "insert_sale pid9 pid1 (PInt 3) (PFloat 10) None 5 sample_store =
     (Inl (ValueError ''Invalid product or customer''), sample_store\<lparr>calls := 2\<rparr>)"
    using insert_sale_invalid_reference [OF ObjectId_pid9 ObjectId_pid1 ok h1] unfolding c0 .
  have b: "insert_sale pid1 pid9 (PInt 3) (PFloat 10) None 5 sample_store =
     (Inl (ValueError ''Invalid product or customer''), sample_store\<lparr>calls := 2\<rparr>)"
    using insert_sale_invalid_reference [OF ObjectId_pid1 ObjectId_pid9 ok h2] unfolding c0 .
  from ObjectId_pid9 ObjectId_pid1 ok absent a b show ?thesis by blast
qed






section \<open>Logging in\<close>



section \<open>Sales by product\<close>

text \<open>
  C7.  For every list of stored sales, the sales-by-product report is in descending
  order of total, has one row for each product name that occurs in the sales and no
  other row, and the total of the row of a name is the sum of the \<^verbatim>\<open>total\<close> fields of
  the sales with that name.  For the sales A 100, B 50, A 25 the report is A 125, B 50.
\<close>

theorem sales_by_product_sums:
  "sorted_wrt (\<lambda>a b. snd b \<le> snd a) (sales_by_product docs) \<and>
   distinct (map fst (sales_by_product docs)) \<and>
   set (map fst (sales_by_product docs)) =
     {n. \<exists>x\<in>set docs. snd x ''product_name'' = Some (PStr n)} \<and>
   map_of (sales_by_product docs) n =
     (if \<exists>x\<in>set docs. snd x ''product_name'' = Some (PStr n)
      then Some (sum_list (map (\<lambda>x. total_of (snd x))
                   (filter (\<lambda>x. snd x ''product_name'' = Some (PStr n)) docs)))
      else None) \<and>
   sales_by_product report_example = [(''A'', 125), (''B'', 50)]"
proof -
  let ?g = "groupby_sum (sale_rows docs)"
  have 1: "sorted_wrt (\<lambda>a b. snd b \<le> snd a) (sales_by_product docs)"
    unfolding sales_by_product_def by (rule sort_values_desc_sorted)
  have dg: "distinct (map fst ?g)" by (simp add: groupby_sum_keys)
  have 2: "distinct (map fst (sales_by_product docs))"
    unfolding sales_by_product_def by (simp add: sort_values_desc_distinct dg)
  have "set (map fst (sales_by_product docs)) = fst ` set ?g"
    by (simp add: sales_by_product_def sort_values_desc_set)
  also have "\<dots> = set (map fst ?g)" by simp
  also have "\<dots> = fst ` set (sale_rows docs)" by (simp add: groupby_sum_keys)
  finally have 3: "set (map fst (sales_by_product docs)) =
     {n. \<exists>x\<in>set docs. snd x ''product_name'' = Some (PStr n)}"
    by (simp add: sale_rows_names)
  have "map_of (sales_by_product docs) = map_of ?g"
    using map_of_inject_set [OF 2 dg]
    by (simp add: sales_by_product_def sort_values_desc_set)
  then have "map_of (sales_by_product docs) n = map_of ?g n" by simp
  also have "\<dots> = (if n \<in> fst ` set (sale_rows docs)
      then Some (sum_list (map snd (filter (\<lambda>r. fst r = n) (sale_rows docs)))) else None)"
    by (rule map_of_groupby_sum)
  finally have 4: "map_of (sales_by_product docs) n =
     (if \<exists>x\<in>set docs. snd x ''product_name'' = Some (PStr n)
      then Some (sum_list (map (\<lambda>x. total_of (snd x))
                   (filter (\<lambda>x. snd x ''product_name'' = Some (PStr n)) docs)))
      else None)"
    by (simp add: sale_rows_names sale_rows_sum)
  have 5: "sales_by_product report_example = [(''A'', 125), (''B'', 50)]"
    unfolding report_example_def by code_simp
  from 1 2 3 4 5 show ?thesis by blast
qed

theorem sales_by_product_sums_witness:
  "sorted_wrt (\<lambda>a b. snd b \<le> snd a) (sales_by_product report_example) \<and>
   set (map fst (sales_by_product report_example)) = {''A'', ''B''} \<and>
   map_of (sales_by_product report_example) ''A'' = Some 125 \<and>
   map_of (sales_by_product report_example) ''B'' = Some 50 \<and>
   map_of (sales_by_product report_example) ''C'' = None"
proof -
  note t = sales_by_product_sums [of report_example]
  have 1: "sorted_wrt (\<lambda>a b. snd b \<le> snd a) (sales_by_product report_example)"
    using t by blast
  have 2: "set (map fst (sales_by_product report_example)) = {''A'', ''B''}"
    using t [of "''A''", THEN conjunct2, THEN conjunct2, THEN conjunct1]
    by (auto simp: report_example_def)
  have 3: "map_of (sales_by_product report_example) ''A'' = Some 125"
    using t [of "''A''", THEN conjunct2, THEN conjunct2, THEN conjunct2, THEN conjunct1]
    by (simp add: report_example_def total_of_def)
  have 4: "map_of (sales_by_product report_example) ''B'' = Some 50"
    using t [of "''B''", THEN conjunct2, THEN conjunct2, THEN conjunct2, THEN conjunct1]
    by (simp add: report_example_def total_of_def)
  have 5: "map_of (sales_by_product report_example) ''C'' = None"
    using t [of "''C''", THEN conjunct2, THEN conjunct2, THEN conjunct2, THEN conjunct1]
    by (simp add: report_example_def total_of_def)
  from 1 2 3 4 5 show ?thesis by blast
qed

end
